theory Spec2Isabelle
  imports Complex_Main
begin

section \<open>Procedurally generated composite objects: Bin and MugTree\<close>

text \<open>
  A shallow embedding of \<^verbatim>\<open>mimiclabs/envs/objects/generated_objects.py\<close>.

  Numbers: the Python code computes with floats. The file has the program twice. First
  in exact arithmetic: every number is a \<^typ>\<open>real\<close>, the decimal constants of the
  source (\<^verbatim>\<open>0.05\<close>) are the decimal fractions they denote, and \<^verbatim>\<open>np.pi\<close> is
  \<^term>\<open>pi\<close>. Then with the arithmetic as a parameter, which is either exact again or
  IEEE 754 binary64 with round-to-nearest-even, the arithmetic the program runs in; there
  a number is the real value of a finite double.

  Arrays: a 3-array is a triple, a 4-array (quaternion or RGBA) a quadruple.
  The elementwise numpy operations the source uses are written out below.
\<close>

subsection \<open>Arrays\<close>

type_synonym vec3 = "real \<times> real \<times> real"
type_synonym vec4 = "real \<times> real \<times> real \<times> real"

fun idx0 :: "vec3 \<Rightarrow> real" where "idx0 (x, y, z) = x"
fun idx1 :: "vec3 \<Rightarrow> real" where "idx1 (x, y, z) = y"
fun idx2 :: "vec3 \<Rightarrow> real" where "idx2 (x, y, z) = z"

text \<open>\<^verbatim>\<open>a + b\<close>, \<^verbatim>\<open>a - b\<close> and \<^verbatim>\<open>a / s\<close> on numpy arrays.\<close>

fun array_add :: "vec3 \<Rightarrow> vec3 \<Rightarrow> vec3" where
  "array_add (a, b, c) (x, y, z) = (a + x, b + y, c + z)"

fun array_sub :: "vec3 \<Rightarrow> vec3 \<Rightarrow> vec3" where
  "array_sub (a, b, c) (x, y, z) = (a - x, b - y, c - z)"

fun array_div :: "vec3 \<Rightarrow> real \<Rightarrow> vec3" where
  "array_div (a, b, c) s = (a / s, b / s, c / s)"

text \<open>\<^verbatim>\<open>np.degrees\<close>, to read the wall angles (radians in the source) in degrees.\<close>

definition degrees :: "real \<Rightarrow> real" where
  "degrees r = r * 180 / pi"

text \<open>
  An orientation handed to the engine. The source writes it either as a literal
  quaternion \<^verbatim>\<open>(1, 0, 0, 0)\<close> in wxyz order, or as the result of robosuite's
  \<^verbatim>\<open>T.convert_quat(T.axisangle2quat(v), to="wxyz")\<close>. The robosuite conversion is not
  part of this repository, so the second form keeps the axis-angle vector it is applied to.
\<close>

datatype orientation =
    Quat vec4
  | Axisangle2quat_wxyz vec3

text \<open>Python's \<^verbatim>\<open>str\<close> of a non-negative integer, for the f-string \<^verbatim>\<open>f"wall{i}"\<close>.\<close>

fun str_nat :: "nat \<Rightarrow> string" where
  "str_nat n =
     (if n < 10 then [''0123456789'' ! n]
      else str_nat (n div 10) @ [''0123456789'' ! (n mod 10)])"

declare str_nat.simps [simp del]

subsection \<open>Constructor parameters\<close>

text \<open>
  The keyword arguments the two constructors share, and the ones of each class.
  \<^verbatim>\<open>friction\<close> and \<^verbatim>\<open>rgba\<close> may be \<^verbatim>\<open>None\<close>.
\<close>

record common_params =
  name :: string
  friction :: "vec3 option"
  density :: real
  use_texture :: bool
  rgba :: "vec4 option"

record Bin_params = common_params +
  bin_size :: vec3
  wall_thickness :: real
  transparent_walls :: bool

record MugTree_params = common_params +
  base_size :: vec3
  branch_height :: real
  branch_size :: vec3
  tree_size :: vec3

text \<open>The default arguments of \<^verbatim>\<open>Bin.__init__\<close>.\<close>

definition Bin_defaults :: Bin_params where
  "Bin_defaults =
     \<lparr>name = ''bin'', friction = None, density = 1000, use_texture = True,
      rgba = Some (0.2, 0.1, 0, 1),
      bin_size = (0.05, 0.05, 0.12), wall_thickness = 0.01, transparent_walls = False\<rparr>"

text \<open>
  The default arguments of \<^verbatim>\<open>MugTree.__init__\<close>; \<^verbatim>\<open>name\<close> has no default there and
  is an argument here.
\<close>

definition MugTree_defaults :: "string \<Rightarrow> MugTree_params" where
  "MugTree_defaults n =
     \<lparr>name = n, friction = None, density = 5000, use_texture = True,
      rgba = Some (0.2, 0.1, 0, 1),
      base_size = (0.16, 0.16, 0.03), branch_height = 0.12,
      branch_size = (0.08, 0.005, 0.015), tree_size = (0.03, 0.03, 0.16)\<rparr>"

subsection \<open>The geometry dictionary\<close>

text \<open>
  \<^verbatim>\<open>obj_args\<close> is a dictionary of parallel lists, one entry per primitive geometry.
  robosuite's \<^verbatim>\<open>add_to_dict\<close> appends each keyword value to the list under its key;
  every call in the source passes the same eight keys.
\<close>

record geom_dict =
  geom_types :: "string list"
  geom_locations :: "vec3 list"
  geom_quats :: "orientation list"
  geom_sizes :: "vec3 list"
  geom_names :: "string list"
  geom_rgbas :: "vec4 option list"
  geom_materials :: "string option list"
  geom_frictions :: "vec3 option list"

definition empty_dict :: geom_dict where
  "empty_dict =
     \<lparr>geom_types = [], geom_locations = [], geom_quats = [], geom_sizes = [],
      geom_names = [], geom_rgbas = [], geom_materials = [], geom_frictions = []\<rparr>"

definition add_to_dict ::
  "geom_dict \<Rightarrow> string \<Rightarrow> vec3 \<Rightarrow> orientation \<Rightarrow> vec3 \<Rightarrow> string \<Rightarrow>
   vec4 option \<Rightarrow> string option \<Rightarrow> vec3 option \<Rightarrow> geom_dict" where
  "add_to_dict dic ty loc q sz nm col mat fr =
     \<lparr>geom_types = geom_types dic @ [ty],
      geom_locations = geom_locations dic @ [loc],
      geom_quats = geom_quats dic @ [q],
      geom_sizes = geom_sizes dic @ [sz],
      geom_names = geom_names dic @ [nm],
      geom_rgbas = geom_rgbas dic @ [col],
      geom_materials = geom_materials dic @ [mat],
      geom_frictions = geom_frictions dic @ [fr]\<rparr>"

text \<open>
  The keyword arguments of \<^verbatim>\<open>CompositeObject.__init__\<close>: the geometry lists together
  with \<^verbatim>\<open>base_args\<close> (the keys \<^verbatim>\<open>name\<close> and \<^verbatim>\<open>density\<close> are the fields
  \<open>obj_name\<close> and \<open>obj_density\<close>).
\<close>

record obj_args =
  geoms :: geom_dict
  total_size :: vec3
  obj_name :: string
  locations_relative_to_center :: bool
  obj_types :: string
  obj_density :: real

subsection \<open>Sites, materials and the constructed object\<close>

text \<open>
  A site element. The source formats the numbers into the attribute strings of an XML
  element (\<^verbatim>\<open>pos='0 0 {contain_pos_z}'\<close>); the record holds the numbers.
\<close>

record site =
  site_name :: string
  site_type :: string
  site_pos :: vec3
  site_quat :: vec4
  site_size :: vec3
  site_rgba :: vec4
  site_group :: nat

text \<open>The arguments of robosuite's \<^verbatim>\<open>CustomMaterial\<close>; a dict is an association list.\<close>

record CustomMaterial =
  texture :: string
  tex_name :: string
  mat_name :: string
  tex_attrib :: "(string \<times> string) list"
  mat_attrib :: "(string \<times> string) list"

text \<open>
  What a constructor of this file leaves behind: the arguments it passed to the
  superclass constructor, the sites it appended to the object's XML subtree, the
  materials it appended, and the attributes it set afterwards.
\<close>

record composite_object =
  args :: obj_args
  sites :: "site list"
  materials :: "CustomMaterial list"
  category_name :: string
  rotation :: "(real \<times> real) option"
  rotation_axis :: string

definition CompositeObject_init :: "obj_args \<Rightarrow> composite_object" where
  "CompositeObject_init a =
     \<lparr>args = a, sites = [], materials = [], category_name = [],
      rotation = None, rotation_axis = []\<rparr>"

definition append_site :: "site \<Rightarrow> composite_object \<Rightarrow> composite_object" where
  "append_site s obj = obj\<lparr>sites := sites obj @ [s]\<rparr>"

definition append_material :: "CustomMaterial \<Rightarrow> composite_object \<Rightarrow> composite_object" where
  "append_material m obj = obj\<lparr>materials := materials obj @ [m]\<rparr>"

text \<open>
  \<open>ConfigurationError\<close> is the error class the specification names; no statement of the
  source raises it. \<open>ParseError\<close> is what \<^verbatim>\<open>ET.fromstring\<close> raises on a site string that
  is not well-formed XML. The constructors \<open>Bin_init\<close> and \<open>MugTree_init\<close> of the exact
  model leave the XML step out and never return \<open>Inl\<close>; \<open>Bin_init_in\<close> and
  \<open>MugTree_init_in\<close> below have it.
\<close>

datatype error = ConfigurationError | ParseError

subsection \<open>Bin\<close>

definition bin_mat_name :: string where
  "bin_mat_name = ''light_wood_mat''"

definition base_geom :: string where
  "base_geom = ''base''"

text \<open>The material both constructors define (\<^verbatim>\<open>bin_mat\<close>).\<close>

definition bin_mat :: CustomMaterial where
  "bin_mat =
     \<lparr>texture = ''WoodLight'', tex_name = ''light_wood'', mat_name = bin_mat_name,
      tex_attrib = [(''type'', ''cube'')],
      mat_attrib = [(''texrepeat'', ''3 3''), (''specular'', ''0.4''), (''shininess'', ''0.1'')]\<rparr>"

definition x_vals :: "Bin_params \<Rightarrow> real list" where
  "x_vals p =
     [0,
      (- (idx0 (bin_size p) - wall_thickness p)) / 2,
      0,
      (idx0 (bin_size p) - wall_thickness p) / 2]"

definition y_vals :: "Bin_params \<Rightarrow> real list" where
  "y_vals p =
     [(- (idx1 (bin_size p) - wall_thickness p)) / 2,
      0,
      (idx1 (bin_size p) - wall_thickness p) / 2,
      0]"

definition w_vals :: "Bin_params \<Rightarrow> real list" where
  "w_vals p =
     [idx0 (bin_size p), idx1 (bin_size p), idx0 (bin_size p), idx1 (bin_size p)]"

definition r_vals :: "real list" where
  "r_vals = [pi / 2, 0, (- pi) / 2, pi]"

definition wall_rgba :: "Bin_params \<Rightarrow> vec4 option" where
  "wall_rgba p =
     (if transparent_walls p then Some (1.0, 1.0, 1.0, 0.3)
      else if use_texture p then None else rgba p)"

definition wall_mat :: "Bin_params \<Rightarrow> string option" where
  "wall_mat p =
     (if transparent_walls p then None
      else if use_texture p then Some bin_mat_name else None)"

text \<open>
  The loop \<^verbatim>\<open>for i, (x, y, w, r) in enumerate(zip(x_vals, y_vals, w_vals, r_vals))\<close>.
\<close>

fun add_walls ::
  "Bin_params \<Rightarrow> (nat \<times> real \<times> real \<times> real \<times> real) list \<Rightarrow> geom_dict \<Rightarrow> geom_dict" where
  "add_walls p [] dic = dic"
| "add_walls p ((i, x, y, w, r) # rest) dic =
     add_walls p rest
       (add_to_dict dic ''box'' (x, y, 0) (Axisangle2quat_wxyz (0, 0, r))
          (wall_thickness p / 2, w / 2, idx2 (bin_size p) / 2)
          (''wall'' @ str_nat i) (wall_rgba p) (wall_mat p) (friction p))"

definition Bin_get_geom_attrs :: "Bin_params \<Rightarrow> obj_args" where
  "Bin_get_geom_attrs p =
     (let dic = add_to_dict empty_dict ''box''
                  (0, 0, (- (idx2 (bin_size p) - wall_thickness p)) / 2)
                  (Quat (1, 0, 0, 0))
                  (array_div
                     (array_sub
                        (idx0 (bin_size p), idx1 (bin_size p), wall_thickness p)
                        (wall_thickness p, wall_thickness p, 0))
                     2)
                  base_geom
                  (if use_texture p then None else rgba p)
                  (if use_texture p then Some bin_mat_name else None)
                  (friction p);
          dic = add_walls p
                  (enumerate 0 (zip (x_vals p) (zip (y_vals p) (zip (w_vals p) r_vals))))
                  dic
      in \<lparr>geoms = dic,
          total_size = array_div (bin_size p) 2,
          obj_name = name p,
          locations_relative_to_center = True,
          obj_types = ''all'',
          obj_density = density p\<rparr>)"

definition Bin_contain_region_site :: "Bin_params \<Rightarrow> site" where
  "Bin_contain_region_site p =
     (let contain_size_x = (idx0 (bin_size p) - 2 * wall_thickness p) / 2;
          contain_size_y = (idx1 (bin_size p) - 2 * wall_thickness p) / 2;
          contain_size_z = (idx2 (bin_size p) - wall_thickness p) / 2;
          contain_pos_z = wall_thickness p / 2
      in \<lparr>site_name = name p @ ''_contain_region'',
          site_type = ''box'',
          site_pos = (0, 0, contain_pos_z),
          site_quat = (1, 0, 0, 0),
          site_size = (contain_size_x, contain_size_y, contain_size_z),
          site_rgba = (0.8, 0, 0, 0),
          site_group = 0\<rparr>)"

definition Bin_add_contain_region_site :: "Bin_params \<Rightarrow> composite_object \<Rightarrow> composite_object" where
  "Bin_add_contain_region_site p obj = append_site (Bin_contain_region_site p) obj"

definition Bin_init :: "Bin_params \<Rightarrow> error + composite_object" where
  "Bin_init p =
     (let obj = CompositeObject_init (Bin_get_geom_attrs p);
          obj = Bin_add_contain_region_site p obj;
          obj = append_material bin_mat obj
      in Inr (obj\<lparr>category_name := ''bin'', rotation := Some (0.0, 0.0),
                  rotation_axis := ''x''\<rparr>))"

subsection \<open>MugTree\<close>

definition MugTree_get_geom_attrs :: "MugTree_params \<Rightarrow> obj_args" where
  "MugTree_get_geom_attrs p =
     (let dic = add_to_dict empty_dict ''box''
                  (0, 0,
                   idx2 (base_size p) / 2 - (idx2 (tree_size p) + idx2 (base_size p)) / 2)
                  (Quat (1, 0, 0, 0))
                  (array_div (base_size p) 2)
                  base_geom
                  (if use_texture p then None else rgba p)
                  (if use_texture p then Some bin_mat_name else None)
                  (friction p);
          dic = add_to_dict dic ''box''
                  (0, 0,
                   idx2 (base_size p) + idx2 (tree_size p) / 2
                     - (idx2 (tree_size p) + idx2 (base_size p)) / 2)
                  (Quat (1, 0, 0, 0))
                  (array_div (tree_size p) 2)
                  ''tree''
                  (if use_texture p then None else rgba p)
                  (if use_texture p then Some bin_mat_name else None)
                  (friction p);
          dic = add_to_dict dic ''box''
                  (idx0 (tree_size p) / 2 + idx0 (branch_size p) / 2,
                   0,
                   idx2 (base_size p) + branch_height p
                     - (idx2 (tree_size p) + idx2 (base_size p)) / 2)
                  (Quat (1, 0, 0, 0))
                  (array_div (branch_size p) 2)
                  ''branches''
                  (if use_texture p then None else rgba p)
                  (if use_texture p then Some bin_mat_name else None)
                  (friction p)
      in \<lparr>geoms = dic,
          total_size = array_div (array_add (base_size p) (0, 0, idx2 (tree_size p))) 2,
          obj_name = name p,
          locations_relative_to_center = True,
          obj_types = ''all'',
          obj_density = density p\<rparr>)"

definition MugTree_hang_region_site :: "MugTree_params \<Rightarrow> site" where
  "MugTree_hang_region_site p =
     (let hang_size_x = idx0 (branch_size p) / 2;
          hang_size_y = idx0 (branch_size p) / 2;
          hang_size_z = idx2 (tree_size p) / 2 * 0.5;
          hang_pos_x = idx0 (tree_size p) / 2 + idx0 (branch_size p) / 2;
          hang_pos_y = 0;
          hang_pos_z = idx2 (base_size p) + branch_height p
                         - (idx2 (tree_size p) + idx2 (base_size p)) / 2
                         - hang_size_z
      in \<lparr>site_name = name p @ ''_hang_region'',
          site_type = ''box'',
          site_pos = (hang_pos_x, hang_pos_y, hang_pos_z),
          site_quat = (1, 0, 0, 0),
          site_size = (hang_size_x, hang_size_y, hang_size_z),
          site_rgba = (0, 0.8, 0, 0.3),
          site_group = 0\<rparr>)"

definition MugTree_add_hang_region_site ::
  "MugTree_params \<Rightarrow> composite_object \<Rightarrow> composite_object" where
  "MugTree_add_hang_region_site p obj = append_site (MugTree_hang_region_site p) obj"

definition MugTree_init :: "MugTree_params \<Rightarrow> error + composite_object" where
  "MugTree_init p =
     (let obj = CompositeObject_init (MugTree_get_geom_attrs p);
          obj = MugTree_add_hang_region_site p obj;
          obj = append_material bin_mat obj
      in Inr (obj\<lparr>category_name := ''mug_tree'', rotation := None,
                  rotation_axis := ''x''\<rparr>))"

section \<open>The program in its own arithmetic\<close>

subsection \<open>Binary64\<close>

text \<open>
  Rounding of a real to the nearest double, ties to the even significand. A double is
  \<open>m * 2 ^ (e - 52)\<close> with an integer \<open>m\<close> of at most 53 bits; \<open>e\<close> is the exponent
  of the number rounded, not below -1022 (below that the doubles are subnormal and
  equally spaced). The exponent has no upper limit here: a result beyond the largest
  double, which the program turns into \<^verbatim>\<open>inf\<close>, is outside this model, and so is
  \<^verbatim>\<open>nan\<close>.
\<close>

definition round_even :: "real \<Rightarrow> int" where
  "round_even x =
     (let f = \<lfloor>x\<rfloor>; d = x - of_int f
      in if d < 1 / 2 then f else if 1 / 2 < d then f + 1 else if even f then f else f + 1)"

definition pow2 :: "int \<Rightarrow> real" where
  "pow2 e = (if 0 \<le> e then 2 ^ nat e else 1 / 2 ^ nat (- e))"

definition f64_exp :: "real \<Rightarrow> int" where
  "f64_exp x = max \<lfloor>log 2 \<bar>x\<bar>\<rfloor> (- 1022)"

definition f64_ulp :: "real \<Rightarrow> real" where
  "f64_ulp x = pow2 (f64_exp x - 52)"

definition f64_round :: "real \<Rightarrow> real" where
  "f64_round x = sgn x * (of_int (round_even (\<bar>x\<bar> / f64_ulp x)) * f64_ulp x)"

text \<open>The finite doubles.\<close>

definition is_f64 :: "real \<Rightarrow> bool" where
  "is_f64 x \<longleftrightarrow> f64_round x = x \<and> \<bar>x\<bar> < 2 ^ 1024"

subsection \<open>Arithmetic as a parameter\<close>

text \<open>
  The operations the source applies to floats, the reading of a decimal literal, and
  \<^verbatim>\<open>np.pi\<close>. Integer literals (\<^verbatim>\<open>0\<close>, \<^verbatim>\<open>2\<close>) convert to floats exactly and are
  written as they are.
\<close>

record arith =
  a_add :: "real \<Rightarrow> real \<Rightarrow> real"
  a_sub :: "real \<Rightarrow> real \<Rightarrow> real"
  a_mul :: "real \<Rightarrow> real \<Rightarrow> real"
  a_div :: "real \<Rightarrow> real \<Rightarrow> real"
  a_neg :: "real \<Rightarrow> real"
  a_lit :: "real \<Rightarrow> real"
  a_pi :: real

definition exact_arith :: arith where
  "exact_arith =
     \<lparr>a_add = (\<lambda>x y. x + y), a_sub = (\<lambda>x y. x - y), a_mul = (\<lambda>x y. x * y),
      a_div = (\<lambda>x y. x / y), a_neg = (\<lambda>x. - x), a_lit = (\<lambda>x. x), a_pi = pi\<rparr>"

text \<open>
  Python's float operations: the exact result, rounded. Negation is exact. The source
  divides by 2 only, so division by zero does not arise. \<^verbatim>\<open>np.pi\<close> is the double
  \<^verbatim>\<open>3.141592653589793\<close>.
\<close>

definition float64 :: arith where
  "float64 =
     \<lparr>a_add = (\<lambda>x y. f64_round (x + y)), a_sub = (\<lambda>x y. f64_round (x - y)),
      a_mul = (\<lambda>x y. f64_round (x * y)), a_div = (\<lambda>x y. f64_round (x / y)),
      a_neg = (\<lambda>x. - x), a_lit = f64_round,
      a_pi = 884279719003555 / 281474976710656\<rparr>"

fun array_add_in :: "arith \<Rightarrow> vec3 \<Rightarrow> vec3 \<Rightarrow> vec3" where
  "array_add_in A (a, b, c) (x, y, z) = (a_add A a x, a_add A b y, a_add A c z)"

fun array_sub_in :: "arith \<Rightarrow> vec3 \<Rightarrow> vec3 \<Rightarrow> vec3" where
  "array_sub_in A (a, b, c) (x, y, z) = (a_sub A a x, a_sub A b y, a_sub A c z)"

fun array_div_in :: "arith \<Rightarrow> vec3 \<Rightarrow> real \<Rightarrow> vec3" where
  "array_div_in A (a, b, c) s = (a_div A a s, a_div A b s, a_div A c s)"

text \<open>The default arguments, their decimal literals read in the arithmetic.\<close>

definition Bin_defaults_in :: "arith \<Rightarrow> Bin_params" where
  "Bin_defaults_in A =
     \<lparr>name = ''bin'', friction = None, density = 1000, use_texture = True,
      rgba = Some (a_lit A 0.2, a_lit A 0.1, 0, 1),
      bin_size = (a_lit A 0.05, a_lit A 0.05, a_lit A 0.12),
      wall_thickness = a_lit A 0.01, transparent_walls = False\<rparr>"

definition MugTree_defaults_in :: "arith \<Rightarrow> string \<Rightarrow> MugTree_params" where
  "MugTree_defaults_in A n =
     \<lparr>name = n, friction = None, density = 5000, use_texture = True,
      rgba = Some (a_lit A 0.2, a_lit A 0.1, 0, 1),
      base_size = (a_lit A 0.16, a_lit A 0.16, a_lit A 0.03),
      branch_height = a_lit A 0.12,
      branch_size = (a_lit A 0.08, a_lit A 0.005, a_lit A 0.015),
      tree_size = (a_lit A 0.03, a_lit A 0.03, a_lit A 0.16)\<rparr>"

subsection \<open>The XML step\<close>

text \<open>
  Both constructors format \<^verbatim>\<open>self.name\<close> into a single-quoted attribute of the site
  string and parse the string with \<^verbatim>\<open>ET.fromstring\<close>. A name of plain characters
  (printable ASCII other than the quote, the ampersand and the left angle bracket) comes
  back as it went in. A left angle bracket anywhere in the name makes the string
  ill-formed, and the parser raises. For any other name the parser's verdict depends on
  what the quote or the ampersand begins (\<^verbatim>\<open>x' class='y\<close> parses, to a site named \<^verbatim>\<open>x\<close>),
  and the outcome is left open.
\<close>

definition xml_plain :: "string \<Rightarrow> bool" where
  "xml_plain s =
     list_all (\<lambda>c. 32 \<le> (of_char c :: nat) \<and> (of_char c :: nat) < 127 \<and>
                    c \<noteq> CHR 0x27 \<and> c \<noteq> CHR ''&'' \<and> c \<noteq> CHR ''<'') s"

datatype construction =
    Returns composite_object
  | Raises error
  | Not_modelled

text \<open>The object a construction returns, if it returns one.\<close>

definition returned :: "construction \<Rightarrow> composite_object option" where
  "returned r = (case r of Returns obj \<Rightarrow> Some obj | Raises e \<Rightarrow> None | Not_modelled \<Rightarrow> None)"

definition fromstring_site :: "string \<Rightarrow> site \<Rightarrow> composite_object \<Rightarrow> construction" where
  "fromstring_site nm s obj =
     (if CHR ''<'' \<in> set nm then Raises ParseError
      else if xml_plain nm then Returns (append_site s obj)
      else Not_modelled)"

subsection \<open>Bin, arithmetic as a parameter\<close>

definition x_vals_in :: "arith \<Rightarrow> Bin_params \<Rightarrow> real list" where
  "x_vals_in A p =
     [0,
      a_div A (a_neg A (a_sub A (idx0 (bin_size p)) (wall_thickness p))) 2,
      0,
      a_div A (a_sub A (idx0 (bin_size p)) (wall_thickness p)) 2]"

definition y_vals_in :: "arith \<Rightarrow> Bin_params \<Rightarrow> real list" where
  "y_vals_in A p =
     [a_div A (a_neg A (a_sub A (idx1 (bin_size p)) (wall_thickness p))) 2,
      0,
      a_div A (a_sub A (idx1 (bin_size p)) (wall_thickness p)) 2,
      0]"

definition r_vals_in :: "arith \<Rightarrow> real list" where
  "r_vals_in A = [a_div A (a_pi A) 2, 0, a_div A (a_neg A (a_pi A)) 2, a_pi A]"

definition wall_rgba_in :: "arith \<Rightarrow> Bin_params \<Rightarrow> vec4 option" where
  "wall_rgba_in A p =
     (if transparent_walls p then Some (1, 1, 1, a_lit A 0.3)
      else if use_texture p then None else rgba p)"

fun add_walls_in ::
  "arith \<Rightarrow> Bin_params \<Rightarrow> (nat \<times> real \<times> real \<times> real \<times> real) list \<Rightarrow> geom_dict \<Rightarrow> geom_dict" where
  "add_walls_in A p [] dic = dic"
| "add_walls_in A p ((i, x, y, w, r) # rest) dic =
     add_walls_in A p rest
       (add_to_dict dic ''box'' (x, y, 0) (Axisangle2quat_wxyz (0, 0, r))
          (a_div A (wall_thickness p) 2, a_div A w 2, a_div A (idx2 (bin_size p)) 2)
          (''wall'' @ str_nat i) (wall_rgba_in A p) (wall_mat p) (friction p))"

definition Bin_get_geom_attrs_in :: "arith \<Rightarrow> Bin_params \<Rightarrow> obj_args" where
  "Bin_get_geom_attrs_in A p =
     (let dic = add_to_dict empty_dict ''box''
                  (0, 0, a_div A (a_neg A (a_sub A (idx2 (bin_size p)) (wall_thickness p))) 2)
                  (Quat (1, 0, 0, 0))
                  (array_div_in A
                     (array_sub_in A
                        (idx0 (bin_size p), idx1 (bin_size p), wall_thickness p)
                        (wall_thickness p, wall_thickness p, 0))
                     2)
                  base_geom
                  (if use_texture p then None else rgba p)
                  (if use_texture p then Some bin_mat_name else None)
                  (friction p);
          dic = add_walls_in A p
                  (enumerate 0
                     (zip (x_vals_in A p) (zip (y_vals_in A p) (zip (w_vals p) (r_vals_in A)))))
                  dic
      in \<lparr>geoms = dic,
          total_size = array_div_in A (bin_size p) 2,
          obj_name = name p,
          locations_relative_to_center = True,
          obj_types = ''all'',
          obj_density = density p\<rparr>)"

definition Bin_contain_region_site_in :: "arith \<Rightarrow> Bin_params \<Rightarrow> site" where
  "Bin_contain_region_site_in A p =
     (let contain_size_x =
            a_div A (a_sub A (idx0 (bin_size p)) (a_mul A 2 (wall_thickness p))) 2;
          contain_size_y =
            a_div A (a_sub A (idx1 (bin_size p)) (a_mul A 2 (wall_thickness p))) 2;
          contain_size_z = a_div A (a_sub A (idx2 (bin_size p)) (wall_thickness p)) 2;
          contain_pos_z = a_div A (wall_thickness p) 2
      in \<lparr>site_name = name p @ ''_contain_region'',
          site_type = ''box'',
          site_pos = (0, 0, contain_pos_z),
          site_quat = (1, 0, 0, 0),
          site_size = (contain_size_x, contain_size_y, contain_size_z),
          site_rgba = (0.8, 0, 0, 0),
          site_group = 0\<rparr>)"

definition Bin_init_in :: "arith \<Rightarrow> Bin_params \<Rightarrow> construction" where
  "Bin_init_in A p =
     (case fromstring_site (name p) (Bin_contain_region_site_in A p)
             (CompositeObject_init (Bin_get_geom_attrs_in A p)) of
        Returns obj \<Rightarrow>
          Returns (append_material bin_mat obj
                     \<lparr>category_name := ''bin'', rotation := Some (0, 0),
                      rotation_axis := ''x''\<rparr>)
      | Raises e \<Rightarrow> Raises e
      | Not_modelled \<Rightarrow> Not_modelled)"

subsection \<open>MugTree, arithmetic as a parameter\<close>

definition MugTree_get_geom_attrs_in :: "arith \<Rightarrow> MugTree_params \<Rightarrow> obj_args" where
  "MugTree_get_geom_attrs_in A p =
     (let dic = add_to_dict empty_dict ''box''
                  (0, 0,
                   a_sub A (a_div A (idx2 (base_size p)) 2)
                     (a_div A (a_add A (idx2 (tree_size p)) (idx2 (base_size p))) 2))
                  (Quat (1, 0, 0, 0))
                  (array_div_in A (base_size p) 2)
                  base_geom
                  (if use_texture p then None else rgba p)
                  (if use_texture p then Some bin_mat_name else None)
                  (friction p);
          dic = add_to_dict dic ''box''
                  (0, 0,
                   a_sub A (a_add A (idx2 (base_size p)) (a_div A (idx2 (tree_size p)) 2))
                     (a_div A (a_add A (idx2 (tree_size p)) (idx2 (base_size p))) 2))
                  (Quat (1, 0, 0, 0))
                  (array_div_in A (tree_size p) 2)
                  ''tree''
                  (if use_texture p then None else rgba p)
                  (if use_texture p then Some bin_mat_name else None)
                  (friction p);
          dic = add_to_dict dic ''box''
                  (a_add A (a_div A (idx0 (tree_size p)) 2) (a_div A (idx0 (branch_size p)) 2),
                   0,
                   a_sub A (a_add A (idx2 (base_size p)) (branch_height p))
                     (a_div A (a_add A (idx2 (tree_size p)) (idx2 (base_size p))) 2))
                  (Quat (1, 0, 0, 0))
                  (array_div_in A (branch_size p) 2)
                  ''branches''
                  (if use_texture p then None else rgba p)
                  (if use_texture p then Some bin_mat_name else None)
                  (friction p)
      in \<lparr>geoms = dic,
          total_size =
            array_div_in A (array_add_in A (base_size p) (0, 0, idx2 (tree_size p))) 2,
          obj_name = name p,
          locations_relative_to_center = True,
          obj_types = ''all'',
          obj_density = density p\<rparr>)"

definition MugTree_hang_region_site_in :: "arith \<Rightarrow> MugTree_params \<Rightarrow> site" where
  "MugTree_hang_region_site_in A p =
     (let hang_size_x = a_div A (idx0 (branch_size p)) 2;
          hang_size_y = a_div A (idx0 (branch_size p)) 2;
          hang_size_z = a_mul A (a_div A (idx2 (tree_size p)) 2) (a_lit A 0.5);
          hang_pos_x = a_add A (a_div A (idx0 (tree_size p)) 2)
                         (a_div A (idx0 (branch_size p)) 2);
          hang_pos_y = 0;
          hang_pos_z =
            a_sub A
              (a_sub A (a_add A (idx2 (base_size p)) (branch_height p))
                 (a_div A (a_add A (idx2 (tree_size p)) (idx2 (base_size p))) 2))
              hang_size_z
      in \<lparr>site_name = name p @ ''_hang_region'',
          site_type = ''box'',
          site_pos = (hang_pos_x, hang_pos_y, hang_pos_z),
          site_quat = (1, 0, 0, 0),
          site_size = (hang_size_x, hang_size_y, hang_size_z),
          site_rgba = (0, 0.8, 0, 0.3),
          site_group = 0\<rparr>)"

definition MugTree_init_in :: "arith \<Rightarrow> MugTree_params \<Rightarrow> construction" where
  "MugTree_init_in A p =
     (case fromstring_site (name p) (MugTree_hang_region_site_in A p)
             (CompositeObject_init (MugTree_get_geom_attrs_in A p)) of
        Returns obj \<Rightarrow>
          Returns (append_material bin_mat obj
                     \<lparr>category_name := ''mug_tree'', rotation := None,
                      rotation_axis := ''x''\<rparr>)
      | Raises e \<Rightarrow> Raises e
      | Not_modelled \<Rightarrow> Not_modelled)"

subsection \<open>Inputs of the examples\<close>

text \<open>
  Three parameter sets of doubles: a MugTree with default arguments but a base 0.02 thick;
  a MugTree with a base 0.01 thick, a post 0.03 high and the branch at height 0.11; and a
  Bin with default arguments but walls 0.03 thick.
\<close>

definition MugTree_thin_base :: MugTree_params where
  "MugTree_thin_base =
     (MugTree_defaults_in float64 ''mug_tree'')
       \<lparr>base_size := (a_lit float64 0.16, a_lit float64 0.16, a_lit float64 0.02)\<rparr>"

definition MugTree_short_post :: MugTree_params where
  "MugTree_short_post =
     (MugTree_defaults_in float64 ''mug_tree'')
       \<lparr>base_size := (a_lit float64 0.16, a_lit float64 0.16, a_lit float64 0.01),
        branch_height := a_lit float64 0.11,
        tree_size := (a_lit float64 0.03, a_lit float64 0.03, a_lit float64 0.03)\<rparr>"

definition Bin_thick_walls :: Bin_params where
  "Bin_thick_walls = (Bin_defaults_in float64)\<lparr>wall_thickness := a_lit float64 0.03\<rparr>"

subsection \<open>Predicates of the specification\<close>

text \<open>
  Appearance of a primitive: its entries in \<^verbatim>\<open>geom_rgbas\<close> and \<^verbatim>\<open>geom_materials\<close>.
  An entry is set when it is not \<^verbatim>\<open>None\<close>.
\<close>

definition exactly_one_set :: "vec4 option \<Rightarrow> string option \<Rightarrow> bool" where
  "exactly_one_set col mat \<longleftrightarrow> (col = None) \<noteq> (mat = None)"

definition both_set :: "vec4 option \<Rightarrow> string option \<Rightarrow> bool" where
  "both_set col mat \<longleftrightarrow> col \<noteq> None \<and> mat \<noteq> None"


section \<open>The geometry lists, computed\<close>

text \<open>The loop over the four preset tuples, run: the dictionary after the base and the walls.\<close>

lemma Bin_geoms:
  "geoms (Bin_get_geom_attrs p) =
     \<lparr>geom_types = [''box'', ''box'', ''box'', ''box'', ''box''],
      geom_locations =
        [(0, 0, (- (idx2 (bin_size p) - wall_thickness p)) / 2),
         (0, (- (idx1 (bin_size p) - wall_thickness p)) / 2, 0),
         ((- (idx0 (bin_size p) - wall_thickness p)) / 2, 0, 0),
         (0, (idx1 (bin_size p) - wall_thickness p) / 2, 0),
         ((idx0 (bin_size p) - wall_thickness p) / 2, 0, 0)],
      geom_quats =
        [Quat (1, 0, 0, 0),
         Axisangle2quat_wxyz (0, 0, pi / 2),
         Axisangle2quat_wxyz (0, 0, 0),
         Axisangle2quat_wxyz (0, 0, (- pi) / 2),
         Axisangle2quat_wxyz (0, 0, pi)],
      geom_sizes =
        [((idx0 (bin_size p) - wall_thickness p) / 2,
          (idx1 (bin_size p) - wall_thickness p) / 2,
          wall_thickness p / 2),
         (wall_thickness p / 2, idx0 (bin_size p) / 2, idx2 (bin_size p) / 2),
         (wall_thickness p / 2, idx1 (bin_size p) / 2, idx2 (bin_size p) / 2),
         (wall_thickness p / 2, idx0 (bin_size p) / 2, idx2 (bin_size p) / 2),
         (wall_thickness p / 2, idx1 (bin_size p) / 2, idx2 (bin_size p) / 2)],
      geom_names = [''base'', ''wall0'', ''wall1'', ''wall2'', ''wall3''],
      geom_rgbas =
        [if use_texture p then None else rgba p,
         wall_rgba p, wall_rgba p, wall_rgba p, wall_rgba p],
      geom_materials =
        [if use_texture p then Some ''light_wood_mat'' else None,
         wall_mat p, wall_mat p, wall_mat p, wall_mat p],
      geom_frictions = [friction p, friction p, friction p, friction p, friction p]\<rparr>"
  by (simp add: Bin_get_geom_attrs_def x_vals_def y_vals_def w_vals_def r_vals_def
      add_to_dict_def empty_dict_def base_geom_def bin_mat_name_def str_nat.simps)

lemma MugTree_geoms:
  "geoms (MugTree_get_geom_attrs p) =
     \<lparr>geom_types = [''box'', ''box'', ''box''],
      geom_locations =
        [(0, 0, idx2 (base_size p) / 2 - (idx2 (tree_size p) + idx2 (base_size p)) / 2),
         (0, 0,
          idx2 (base_size p) + idx2 (tree_size p) / 2
            - (idx2 (tree_size p) + idx2 (base_size p)) / 2),
         (idx0 (tree_size p) / 2 + idx0 (branch_size p) / 2, 0,
          idx2 (base_size p) + branch_height p
            - (idx2 (tree_size p) + idx2 (base_size p)) / 2)],
      geom_quats = [Quat (1, 0, 0, 0), Quat (1, 0, 0, 0), Quat (1, 0, 0, 0)],
      geom_sizes =
        [array_div (base_size p) 2, array_div (tree_size p) 2, array_div (branch_size p) 2],
      geom_names = [''base'', ''tree'', ''branches''],
      geom_rgbas =
        [if use_texture p then None else rgba p,
         if use_texture p then None else rgba p,
         if use_texture p then None else rgba p],
      geom_materials =
        [if use_texture p then Some ''light_wood_mat'' else None,
         if use_texture p then Some ''light_wood_mat'' else None,
         if use_texture p then Some ''light_wood_mat'' else None],
      geom_frictions = [friction p, friction p, friction p]\<rparr>"
  by (simp add: MugTree_get_geom_attrs_def add_to_dict_def empty_dict_def base_geom_def
      bin_mat_name_def)

lemma idx_array_div [simp]:
  "idx0 (array_div v s) = idx0 v / s"
  "idx1 (array_div v s) = idx1 v / s"
  "idx2 (array_div v s) = idx2 v / s"
  by (cases v; simp)+

lemma array_div_components:
  "array_div v s = (idx0 v / s, idx1 v / s, idx2 v / s)"
  by (cases v) simp

lemma Bin_total_size:
  "total_size (Bin_get_geom_attrs p) =
     (idx0 (bin_size p) / 2, idx1 (bin_size p) / 2, idx2 (bin_size p) / 2)"
  by (simp add: Bin_get_geom_attrs_def Let_def array_div_components)


lemma Bin_init_object:
  "Bin_init p =
     Inr \<lparr>args = Bin_get_geom_attrs p, sites = [Bin_contain_region_site p],
          materials = [bin_mat], category_name = ''bin'', rotation = Some (0, 0),
          rotation_axis = ''x''\<rparr>"
  by (simp add: Bin_init_def CompositeObject_init_def Bin_add_contain_region_site_def
      append_site_def append_material_def)

lemma MugTree_init_object:
  "MugTree_init p =
     Inr \<lparr>args = MugTree_get_geom_attrs p, sites = [MugTree_hang_region_site p],
          materials = [bin_mat], category_name = ''mug_tree'', rotation = None,
          rotation_axis = ''x''\<rparr>"
  by (simp add: MugTree_init_def CompositeObject_init_def MugTree_add_hang_region_site_def
      append_site_def append_material_def)

section \<open>Bin layout\<close>

text \<open>
  C1. For every Bin parameter set, the overall half-extent is \<open>binSize / 2\<close>, and the
  first primitive is the base: a box named \<open>base\<close> with half-extents
  \<open>((binSize.x - wallThickness)/2, (binSize.y - wallThickness)/2, wallThickness/2)\<close>,
  identity orientation, at \<open>(0, 0, -(binSize.z - wallThickness)/2)\<close>.
\<close>

theorem Bin_base_primitive:
  "total_size (Bin_get_geom_attrs p) =
     (idx0 (bin_size p) / 2, idx1 (bin_size p) / 2, idx2 (bin_size p) / 2) \<and>
   hd (geom_names (geoms (Bin_get_geom_attrs p))) = ''base'' \<and>
   hd (geom_types (geoms (Bin_get_geom_attrs p))) = ''box'' \<and>
   hd (geom_sizes (geoms (Bin_get_geom_attrs p))) =
     ((idx0 (bin_size p) - wall_thickness p) / 2,
      (idx1 (bin_size p) - wall_thickness p) / 2,
      wall_thickness p / 2) \<and>
   hd (geom_quats (geoms (Bin_get_geom_attrs p))) = Quat (1, 0, 0, 0) \<and>
   hd (geom_locations (geoms (Bin_get_geom_attrs p))) =
     (0, 0, - ((idx2 (bin_size p) - wall_thickness p) / 2))"
  by (simp add: Bin_total_size Bin_geoms field_simps)

text \<open>
  C2. For every Bin parameter set, the base is followed by exactly four wall boxes
  \<open>wall0 .. wall3\<close>, in this order. Their orientations are the rotations about z by
  \<open>pi/2, 0, -pi/2, pi\<close>, that is 90, 0, -90 and 180 degrees. Each wall is centred at
  \<open>z = 0\<close>, offset along one horizontal axis by \<open>(extent - wallThickness)/2\<close> of that axis
  (to the negative side for walls 0 and 1, the positive side for walls 2 and 3), and has
  half-extents \<open>(wallThickness/2, w/2, binSize.z/2)\<close> with \<open>w\<close> the full extent of the
  other horizontal axis: \<open>binSize.x, binSize.y, binSize.x, binSize.y\<close>.
\<close>

theorem Bin_wall_primitives:
  "length (geom_names (geoms (Bin_get_geom_attrs p))) = 5 \<and>
   tl (geom_names (geoms (Bin_get_geom_attrs p))) = [''wall0'', ''wall1'', ''wall2'', ''wall3''] \<and>
   tl (geom_types (geoms (Bin_get_geom_attrs p))) = [''box'', ''box'', ''box'', ''box''] \<and>
   tl (geom_quats (geoms (Bin_get_geom_attrs p))) =
     map (\<lambda>r. Axisangle2quat_wxyz (0, 0, r)) r_vals \<and>
   map degrees r_vals = [90, 0, - 90, 180] \<and>
   tl (geom_locations (geoms (Bin_get_geom_attrs p))) =
     [(0, - ((idx1 (bin_size p) - wall_thickness p) / 2), 0),
      (- ((idx0 (bin_size p) - wall_thickness p) / 2), 0, 0),
      (0, (idx1 (bin_size p) - wall_thickness p) / 2, 0),
      ((idx0 (bin_size p) - wall_thickness p) / 2, 0, 0)] \<and>
   tl (geom_sizes (geoms (Bin_get_geom_attrs p))) =
     [(wall_thickness p / 2, idx0 (bin_size p) / 2, idx2 (bin_size p) / 2),
      (wall_thickness p / 2, idx1 (bin_size p) / 2, idx2 (bin_size p) / 2),
      (wall_thickness p / 2, idx0 (bin_size p) / 2, idx2 (bin_size p) / 2),
      (wall_thickness p / 2, idx1 (bin_size p) / 2, idx2 (bin_size p) / 2)]"
  by (simp add: Bin_geoms r_vals_def degrees_def field_simps)

text \<open>
  C3. For every Bin parameter set, construction appends exactly one site, the contain
  region: half-extents \<open>((binSize.x - 2 wallThickness)/2, (binSize.y - 2 wallThickness)/2,
  (binSize.z - wallThickness)/2)\<close>, position \<open>(0, 0, wallThickness/2)\<close>, identity
  orientation, an RGBA whose alpha is zero, and group 0.
\<close>

theorem Bin_contain_region:
  "(\<exists>obj. Bin_init p = Inr obj \<and> sites obj = [Bin_contain_region_site p]) \<and>
   site_name (Bin_contain_region_site p) = name p @ ''_contain_region'' \<and>
   site_type (Bin_contain_region_site p) = ''box'' \<and>
   site_size (Bin_contain_region_site p) =
     ((idx0 (bin_size p) - 2 * wall_thickness p) / 2,
      (idx1 (bin_size p) - 2 * wall_thickness p) / 2,
      (idx2 (bin_size p) - wall_thickness p) / 2) \<and>
   site_pos (Bin_contain_region_site p) = (0, 0, wall_thickness p / 2) \<and>
   site_quat (Bin_contain_region_site p) = (1, 0, 0, 0) \<and>
   snd (snd (snd (site_rgba (Bin_contain_region_site p)))) = 0 \<and>
   site_group (Bin_contain_region_site p) = 0"
  by (simp add: Bin_init_object Bin_contain_region_site_def)

section \<open>MugTree layout\<close>



section \<open>Construction and validation\<close>




section \<open>Appearance\<close>

text \<open>
  C7 (as stated: every primitive has exactly one of material reference and explicit
  RGBA). With \<open>use_texture = False\<close> and \<open>rgba = None\<close>, which the docstring allows, the
  base of a Bin has neither.
\<close>

theorem Bin_base_without_appearance:
  "\<not> exactly_one_set
       (hd (geom_rgbas (geoms (Bin_get_geom_attrs
              (Bin_defaults\<lparr>use_texture := False, rgba := None\<rparr>)))))
       (hd (geom_materials (geoms (Bin_get_geom_attrs
              (Bin_defaults\<lparr>use_texture := False, rgba := None\<rparr>)))))"
  by (simp add: Bin_geoms Bin_defaults_def exactly_one_set_def)

text \<open>
  C7 (amended). For every primitive of a Bin \<open>p\<close> and of a MugTree \<open>q\<close>, material
  reference and explicit RGBA are never both set, and every primitive has exactly one of
  them if and only if \<open>use_texture\<close> holds or \<open>rgba\<close> is not \<open>None\<close>. With \<open>transparent_walls\<close>, the four
  walls of the Bin have the RGBA \<open>(1, 1, 1, 0.3)\<close> and no material, whatever
  \<open>use_texture\<close> is; the appearance of the base does not depend on \<open>transparent_walls\<close>.
\<close>

theorem appearance_sources:
  "list_all2 (\<lambda>col mat. \<not> both_set col mat)
     (geom_rgbas (geoms (Bin_get_geom_attrs p)))
     (geom_materials (geoms (Bin_get_geom_attrs p))) \<and>
   list_all2 (\<lambda>col mat. \<not> both_set col mat)
     (geom_rgbas (geoms (MugTree_get_geom_attrs q)))
     (geom_materials (geoms (MugTree_get_geom_attrs q))) \<and>
   list_all2 exactly_one_set
     (geom_rgbas (geoms (Bin_get_geom_attrs p)))
     (geom_materials (geoms (Bin_get_geom_attrs p)))
     = (use_texture p \<or> rgba p \<noteq> None) \<and>
   list_all2 exactly_one_set
     (geom_rgbas (geoms (MugTree_get_geom_attrs q)))
     (geom_materials (geoms (MugTree_get_geom_attrs q)))
     = (use_texture q \<or> rgba q \<noteq> None) \<and>
   (transparent_walls p \<longrightarrow>
      tl (geom_rgbas (geoms (Bin_get_geom_attrs p)))
        = replicate 4 (Some (1, 1, 1, 0.3)) \<and>
      tl (geom_materials (geoms (Bin_get_geom_attrs p))) = replicate 4 None) \<and>
   hd (geom_rgbas (geoms (Bin_get_geom_attrs (p\<lparr>transparent_walls := b\<rparr>))))
     = hd (geom_rgbas (geoms (Bin_get_geom_attrs p))) \<and>
   hd (geom_materials (geoms (Bin_get_geom_attrs (p\<lparr>transparent_walls := b\<rparr>))))
     = hd (geom_materials (geoms (Bin_get_geom_attrs p)))"
  by (auto simp: Bin_geoms MugTree_geoms both_set_def exactly_one_set_def
      wall_rgba_def wall_mat_def bin_mat_name_def numeral_eq_Suc)

theorem appearance_sources_witness:
  "(use_texture (Bin_defaults\<lparr>transparent_walls := True\<rparr>)
      \<or> rgba (Bin_defaults\<lparr>transparent_walls := True\<rparr>) \<noteq> None) \<and>
   (use_texture (MugTree_defaults ''mug_tree'')
      \<or> rgba (MugTree_defaults ''mug_tree'') \<noteq> None) \<and>
   transparent_walls (Bin_defaults\<lparr>transparent_walls := True\<rparr>) \<and>
   list_all2 exactly_one_set
     (geom_rgbas (geoms (Bin_get_geom_attrs (Bin_defaults\<lparr>transparent_walls := True\<rparr>))))
     (geom_materials (geoms (Bin_get_geom_attrs (Bin_defaults\<lparr>transparent_walls := True\<rparr>)))) \<and>
   list_all2 exactly_one_set
     (geom_rgbas (geoms (MugTree_get_geom_attrs (MugTree_defaults ''mug_tree''))))
     (geom_materials (geoms (MugTree_get_geom_attrs (MugTree_defaults ''mug_tree'')))) \<and>
   tl (geom_rgbas (geoms (Bin_get_geom_attrs (Bin_defaults\<lparr>transparent_walls := True\<rparr>))))
     = replicate 4 (Some (1, 1, 1, 0.3)) \<and>
   tl (geom_materials (geoms (Bin_get_geom_attrs (Bin_defaults\<lparr>transparent_walls := True\<rparr>))))
     = replicate 4 None"
proof -
  have h1: "use_texture (Bin_defaults\<lparr>transparent_walls := True\<rparr>)
              \<or> rgba (Bin_defaults\<lparr>transparent_walls := True\<rparr>) \<noteq> None"
    by (simp add: Bin_defaults_def)
  have h2: "use_texture (MugTree_defaults ''mug_tree'')
              \<or> rgba (MugTree_defaults ''mug_tree'') \<noteq> None"
    by (simp add: MugTree_defaults_def)
  have h3: "transparent_walls (Bin_defaults\<lparr>transparent_walls := True\<rparr>)"
    by simp
  from h1 h2 h3
    appearance_sources [of "Bin_defaults\<lparr>transparent_walls := True\<rparr>"
                           "MugTree_defaults ''mug_tree''" True]
  show ?thesis
    by blast
qed

section \<open>Enclosure of the contain region\<close>




section \<open>The default Bin\<close>



section \<open>The shared material\<close>

text \<open>
  C10. A Bin and a MugTree each append exactly one material, and it is the same value:
  material name \<open>light_wood_mat\<close>, texture name \<open>light_wood\<close>, texture asset
  \<open>WoodLight\<close>, texture attribute \<open>type = cube\<close>, and material attributes
  \<open>texrepeat = 3 3\<close>, \<open>specular = 0.4\<close>, \<open>shininess = 0.1\<close>.
\<close>

theorem shared_material_definition:
  "(\<exists>b. Bin_init p = Inr b \<and>
        materials b =
          [\<lparr>texture = ''WoodLight'', tex_name = ''light_wood'', mat_name = ''light_wood_mat'',
            tex_attrib = [(''type'', ''cube'')],
            mat_attrib = [(''texrepeat'', ''3 3''), (''specular'', ''0.4''),
                          (''shininess'', ''0.1'')]\<rparr>]) \<and>
   (\<exists>m. MugTree_init q = Inr m \<and>
        materials m =
          [\<lparr>texture = ''WoodLight'', tex_name = ''light_wood'', mat_name = ''light_wood_mat'',
            tex_attrib = [(''type'', ''cube'')],
            mat_attrib = [(''texrepeat'', ''3 3''), (''specular'', ''0.4''),
                          (''shininess'', ''0.1'')]\<rparr>])"
  by (simp add: Bin_init_object MugTree_init_object bin_mat_def bin_mat_name_def)

end
